theory Spec2Isabelle
  imports Main
begin

section \<open>The kratos device client: data model\<close>

text \<open>
  A shallow embedding of \<^verbatim>\<open>kratos.go\<close>. Go strings are byte strings and are modelled as
  \<^typ>\<open>string\<close>. The external collaborators (the device-identifier parser, the TLS key
  loader, the HTTP client, the websocket dialer, the regular-expression compiler, the JSON
  decoder, the table of HTTP reason phrases and the WRP codec) are not part of the
  repository: their results are inputs of the model, collected in the record \<open>env\<close>.
  Logging has no influence on any result and is left out.
\<close>

type_synonym bytes = string

text \<open>The struct \<^verbatim>\<open>Message\<close> that \<^verbatim>\<open>createError\<close> decodes the response body into.\<close>

record Message =
  Code :: int
  Message :: string

text \<open>
  Go error values: an error handed back by a library (opaque, identified by its text), an
  error built with \<^verbatim>\<open>errors.New\<close> or \<^verbatim>\<open>fmt.Errorf\<close>, and the repository's own
  \<^verbatim>\<open>*Error{Message, SubError}\<close>.
\<close>

datatype error =
    External string
  | ErrorsNew string
  | KratosError Message error

text \<open>A Go call either returns or panics (a nil dereference, a send on a closed channel).\<close>

datatype 'a outcome = Returned 'a | Panicked string

subsection \<open>HTTP headers, requests and responses\<close>

text \<open>
  \<^verbatim>\<open>http.Header\<close> maps a key to the list of its values. The keys the code uses are
  already in canonical form, so no canonicalisation is modelled.
\<close>

type_synonym Header = "(string \<times> string list) list"

fun Header_Add :: "Header \<Rightarrow> string \<Rightarrow> string \<Rightarrow> Header" where
  "Header_Add [] k v = [(k, [v])]"
| "Header_Add ((k', vs) # h) k v =
     (if k' = k then (k', vs @ [v]) # h else (k', vs) # Header_Add h k v)"

fun Header_Set :: "Header \<Rightarrow> string \<Rightarrow> string \<Rightarrow> Header" where
  "Header_Set [] k v = [(k, [v])]"
| "Header_Set ((k', vs) # h) k v =
     (if k' = k then (k', [v]) # h else (k', vs) # Header_Set h k v)"

definition Header_Get :: "Header \<Rightarrow> string \<Rightarrow> string" where
  "Header_Get h k = (case map_of h k of Some (v # _) \<Rightarrow> v | _ \<Rightarrow> [])"

record Request =
  Method :: string
  URL :: string
  ReqHeader :: Header

text \<open>
  An \<^verbatim>\<open>*http.Response\<close>. \<open>Request_Response\<close> is \<^verbatim>\<open>resp.Request.Response\<close>: the redirect
  response that caused the final request, nil when the HTTP layer followed no redirect.
\<close>

datatype Response =
  Response (StatusCode: int) (Header: Header) (Body: string) (Request_Response: "Response option")

definition StatusTemporaryRedirect :: int where
  "StatusTemporaryRedirect = 307"

definition StatusDeviceDisconnected :: int where
  "StatusDeviceDisconnected = 523"

definition StatusDeviceTimeout :: int where
  "StatusDeviceTimeout = 524"

subsection \<open>The websocket connection\<close>

definition BinaryMessage :: int where
  "BinaryMessage = 2"

definition CloseMessage :: int where
  "CloseMessage = 8"

definition PingMessage :: int where
  "PingMessage = 9"

definition maxMessageSize :: int where
  "maxMessageSize = 2048"

text \<open>
  The state of a \<^verbatim>\<open>*websocket.Conn\<close>, seen through the interface
  \<^verbatim>\<open>websocketConnection\<close>. What the peer and the network do is an input: \<open>incoming\<close> is
  the list of results the coming calls of \<^verbatim>\<open>ReadMessage\<close> will give, \<open>write_results\<close> the
  results of the coming writes (a write beyond the list succeeds). \<open>written\<close> records the
  frames handed to \<^verbatim>\<open>WriteMessage\<close>, in order.
\<close>

record Conn =
  incoming :: "(error + bytes) list"
  write_results :: "error option list"
  written :: "(int \<times> bytes) list"
  closed :: bool
  readLimit :: int

definition WriteMessage :: "Conn \<Rightarrow> int \<Rightarrow> bytes \<Rightarrow> error option \<times> Conn" where
  "WriteMessage c messageType data =
     (case write_results c of
        [] \<Rightarrow> (None, c\<lparr>written := written c @ [(messageType, data)]\<rparr>)
      | r # rs \<Rightarrow> (r, c\<lparr>write_results := rs, written := written c @ [(messageType, data)]\<rparr>))"

text \<open>
  \<^verbatim>\<open>ReadMessage\<close> blocks while the peer has sent nothing: \<open>None\<close> stands for a call that
  has not returned.
\<close>

definition ReadMessage :: "Conn \<Rightarrow> (error + bytes) option \<times> Conn" where
  "ReadMessage c =
     (case incoming c of
        [] \<Rightarrow> (None, c)
      | r # rs \<Rightarrow> (Some r, c\<lparr>incoming := rs\<rparr>))"

definition Conn_Close :: "Conn \<Rightarrow> Conn" where
  "Conn_Close c = c\<lparr>closed := True\<rparr>"

definition SetReadLimit :: "Conn \<Rightarrow> int \<Rightarrow> Conn" where
  "SetReadLimit c n = c\<lparr>readLimit := n\<rparr>"

subsection \<open>Factory, handlers and client\<close>

text \<open>The decoded envelope \<^verbatim>\<open>wrp.Message\<close>, reduced to the fields the spec names.\<close>

record wrp_Message =
  Source :: string
  Destination :: string
  TransactionUUID :: string
  Payload :: bytes

text \<open>
  A \<^verbatim>\<open>HandlerRegistry\<close>. The compiled \<^verbatim>\<open>*regexp.Regexp\<close> is identified by the
  expression it was compiled from, \<open>None\<close> is the nil pointer; the \<^verbatim>\<open>ReadHandler\<close> is
  identified by a number.
\<close>

record HandlerRegistry =
  HandlerKey :: string
  keyRegex :: "string option"
  Handler :: nat

text \<open>
  A \<^verbatim>\<open>HandlePingMiss\<close> callback: nil, or a function that returns the given error value.
\<close>

datatype HandlePingMiss = NilFunc | GoFunc "error option"

record ClientFactory =
  DeviceName :: string
  FirmwareName :: string
  ModelName :: string
  Manufacturer :: string
  DestinationURL :: string
  CRT :: string
  Key :: string
  Handlers :: "HandlerRegistry list"
  FactoryHandlePingMiss :: HandlePingMiss

record clientHeader =
  deviceName :: string
  firmwareName :: string
  modelName :: string
  manufacturer :: string

record client =
  deviceID :: string
  userAgent :: string
  deviceProtocols :: string
  hostname :: string
  handlers :: "HandlerRegistry list"
  connection :: Conn
  headerInfo :: clientHeader
  handlePingMiss :: HandlePingMiss

text \<open>
  The network calls a construction makes, in order. \<open>tls\<close> is the certificate and key
  file the HTTP client and the dialer were configured with, if any.
\<close>

datatype netcall =
    HttpDo Request "(string \<times> string) option"
  | WsDial string Header "(string \<times> string) option"

text \<open>What the external libraries answer.\<close>

record env =
  device_ParseID :: "string \<Rightarrow> error option"
  tls_LoadX509KeyPair :: "string \<Rightarrow> string \<Rightarrow> error option"
  http_NewRequest :: "string \<Rightarrow> string \<Rightarrow> error option"
  client_Do :: "Request \<Rightarrow> error + Response"
  dialer_Dial :: "string \<Rightarrow> Header \<Rightarrow> Conn option \<times> Response option \<times> error option"
  regexp_Compile :: "string \<Rightarrow> error option"
  regexp_MatchString :: "string \<Rightarrow> string \<Rightarrow> bool"
  json_Unmarshal :: "string \<Rightarrow> Message \<Rightarrow> Message"
  http_StatusText :: "int \<Rightarrow> string"
  wrp_Decode :: "bytes \<Rightarrow> error + wrp_Message"

section \<open>Connection establishment\<close>

text \<open>\<^verbatim>\<open>strings.Replace(s, old, new, 1)\<close>: the first occurrence of \<open>old\<close> is replaced.\<close>

fun strings_Replace1 :: "string \<Rightarrow> string \<Rightarrow> string \<Rightarrow> string" where
  "strings_Replace1 [] old new = (if old = [] then new else [])"
| "strings_Replace1 (c # cs) old new =
     (if take (length old) (c # cs) = old then new @ drop (length old) (c # cs)
      else c # strings_Replace1 cs old new)"

text \<open>
  \<^verbatim>\<open>createError\<close>: the body is decoded into a zero \<^verbatim>\<open>Message\<close> (the decoder's error
  is dropped); an empty message is filled in from the status.
\<close>

definition createError :: "env \<Rightarrow> Response \<Rightarrow> error \<Rightarrow> error" where
  "createError e resp err =
     (let msg = json_Unmarshal e (Body resp) \<lparr>Code = 0, Message = []\<rparr>;
          msg' = (if Message msg = [] then
                    (if StatusCode resp = StatusDeviceDisconnected then
                       msg\<lparr>Message := ''ErrorDeviceBusy''\<rparr>
                     else if StatusCode resp = StatusDeviceTimeout then
                       msg\<lparr>Message :=
                         ''ErrorTransactionsClosed/ErrorTransactionsAlreadyClosed/ErrorDeviceClosed''\<rparr>
                     else msg\<lparr>Message := http_StatusText e (Code msg)\<rparr>)
                  else msg)
      in KratosError msg' err)"

definition identity_headers :: "clientHeader \<Rightarrow> Header" where
  "identity_headers hi =
     Header_Add (Header_Add (Header_Add (Header_Add []
       ''X-Webpa-Device-Name'' (deviceName hi))
       ''X-Webpa-Firmware-Name'' (firmwareName hi))
       ''X-Webpa-Model-Name'' (modelName hi))
       ''X-Webpa-Manufacturer'' (manufacturer hi)"

text \<open>
  The part of \<^verbatim>\<open>createConnection\<close> after the discovery response has arrived: the guard
  on the prior response, the redirect test, the choice of the \<^verbatim>\<open>Location\<close> header, the
  dial, and the error of a response that is no redirect.
\<close>

definition follow_redirect ::
  "env \<Rightarrow> Header \<Rightarrow> (string \<times> string) option \<Rightarrow> Response \<Rightarrow>
     (Conn option \<times> string \<times> error option) \<times> netcall list" where
  "follow_redirect e headers tls resp =
     (case Request_Response resp of
        None \<Rightarrow> ((None, [], Some (ErrorsNew ''Petasos response is nil!'')), [])
      | Some prior \<Rightarrow>
          if StatusCode resp = StatusTemporaryRedirect
             \<or> StatusCode prior = StatusTemporaryRedirect then
            (let location = Header_Get (Header resp) ''Location'';
                 wsURL = (if location \<noteq> [] then
                            strings_Replace1 location ''http'' ''ws'' @ ''/api/v2/device''
                          else
                            strings_Replace1 (Header_Get (Header prior) ''Location'') ''http'' ''ws''
                              @ ''/api/v2/device'')
             in case dialer_Dial e wsURL headers of
                  (conn, resp', err) \<Rightarrow>
                    (case err of
                       Some x \<Rightarrow> ((None, [], Some x), [WsDial wsURL headers tls])
                     | None \<Rightarrow>
                         (case resp' of
                            None \<Rightarrow> ((None, [], None), [WsDial wsURL headers tls])
                          | Some _ \<Rightarrow> ((conn, wsURL, None), [WsDial wsURL headers tls]))))
          else
            ((None, [], Some (createError e resp
                (ErrorsNew ''Received invalid response from petasos!''))), []))"

text \<open>
  \<^verbatim>\<open>createConnection\<close>. The result is the triple the Go function returns, with the
  network calls made. The error of \<^verbatim>\<open>http.NewRequest\<close> is overwritten unread, so a
  request that could not be built is a nil dereference at \<^verbatim>\<open>req.Header.Set\<close>.
\<close>

definition createConnection ::
  "env \<Rightarrow> clientHeader \<Rightarrow> string \<Rightarrow> string \<Rightarrow> string \<Rightarrow>
     (Conn option \<times> string \<times> error option) outcome \<times> netcall list" where
  "createConnection e hi httpURL crtFile keyFile =
     (case device_ParseID e (deviceName hi) of
        Some err \<Rightarrow> (Returned (None, [], Some err), [])
      | None \<Rightarrow>
          (let headers = identity_headers hi;
               use_tls = (crtFile \<noteq> [] \<and> keyFile \<noteq> []);
               tls = (if use_tls then Some (crtFile, keyFile) else None)
           in case (if use_tls then tls_LoadX509KeyPair e crtFile keyFile else None) of
                Some err \<Rightarrow> (Returned (None, [], Some err), [])
              | None \<Rightarrow>
                  (case http_NewRequest e ''GET'' httpURL of
                     Some _ \<Rightarrow> (Panicked ''nil pointer dereference: req.Header'', [])
                   | None \<Rightarrow>
                       (let req = \<lparr>Method = ''GET'', URL = httpURL,
                                   ReqHeader = Header_Set [] ''X-Webpa-Device-Name'' (deviceName hi)\<rparr>
                        in case client_Do e req of
                             Inl err \<Rightarrow> (Returned (None, [], Some err), [HttpDo req tls])
                           | Inr resp \<Rightarrow>
                               (case follow_redirect e headers tls resp of
                                  (r, calls) \<Rightarrow> (Returned r, HttpDo req tls # calls))))))"

text \<open>The loop of \<^verbatim>\<open>New\<close> that compiles the handler keys, stopping at the first error.\<close>

fun compile_handlers :: "env \<Rightarrow> HandlerRegistry list \<Rightarrow> error + HandlerRegistry list" where
  "compile_handlers e [] = Inr []"
| "compile_handlers e (h # hs) =
     (case regexp_Compile e (HandlerKey h) of
        Some err \<Rightarrow> Inl err
      | None \<Rightarrow>
          (case compile_handlers e hs of
             Inl err \<Rightarrow> Inl err
           | Inr hs' \<Rightarrow> Inr (h\<lparr>keyRegex := Some (HandlerKey h)\<rparr> # hs')))"

text \<open>The \<^verbatim>\<open>clientHeader\<close> that \<^verbatim>\<open>New\<close> fills in from the factory.\<close>

definition inHeader_of :: "ClientFactory \<Rightarrow> clientHeader" where
  "inHeader_of f = \<lparr>deviceName = DeviceName f, firmwareName = FirmwareName f,
                     modelName = ModelName f, manufacturer = Manufacturer f\<rparr>"

text \<open>
  \<^verbatim>\<open>ClientFactory.New\<close>: the connection is established first, then the client is built
  and the handler keys are compiled. A returned client has its watchdog and its read loop
  started. Of the settings made on the new connection the read limit is kept; the read
  deadline and the pong handler that extends it concern real time and are left out.
\<close>

definition New :: "env \<Rightarrow> ClientFactory \<Rightarrow> (error + client) outcome \<times> netcall list" where
  "New e f =
     (let inHeader = inHeader_of f
      in case createConnection e inHeader (DestinationURL f) (CRT f) (Key f) of
           (Panicked p, calls) \<Rightarrow> (Panicked p, calls)
         | (Returned (newConnection, connectionURL, err), calls) \<Rightarrow>
             (case err of
                Some x \<Rightarrow> (Returned (Inl x), calls)
              | None \<Rightarrow>
                  (case newConnection of
                     None \<Rightarrow> (Panicked ''nil pointer dereference: newConnection'', calls)
                   | Some conn \<Rightarrow>
                       (case compile_handlers e (Handlers f) of
                          Inl x \<Rightarrow> (Returned (Inl x), calls)
                        | Inr hs \<Rightarrow>
                            (Returned (Inr
                               \<lparr>deviceID = deviceName inHeader,
                                userAgent = ''WebPA-1.6('' @ firmwareName inHeader @ '';''
                                  @ modelName inHeader @ ''/'' @ manufacturer inHeader @ '';)'',
                                deviceProtocols = ''TODO-what-to-put-here'',
                                hostname = connectionURL,
                                handlers = hs,
                                connection = SetReadLimit conn maxMessageSize,
                                headerInfo = inHeader,
                                handlePingMiss = FactoryHandlePingMiss f\<rparr>), calls)))))"

definition Hostname :: "client \<Rightarrow> string" where
  "Hostname c = hostname c"

section \<open>The send path\<close>

text \<open>
  \<^verbatim>\<open>Send\<close>: the message is encoded with the WRP encoder (external, a parameter) and,
  when that gave no error, written as one binary frame.
\<close>

definition Send :: "('m \<Rightarrow> error + bytes) \<Rightarrow> client \<Rightarrow> 'm \<Rightarrow> error option \<times> client" where
  "Send wrp_Encode c message =
     (case wrp_Encode message of
        Inl err \<Rightarrow> (Some err, c)
      | Inr buffer \<Rightarrow>
          (case WriteMessage (connection c) BinaryMessage buffer of
             (err, conn') \<Rightarrow> (err, c\<lparr>connection := conn'\<rparr>)))"

section \<open>The read loop\<close>

text \<open>
  An invocation \<^verbatim>\<open>Handler.HandleMessage(wrpData)\<close> is recorded as the handler and the
  message it was given; handlers are taken to return. The inner loop of \<^verbatim>\<open>read\<close> runs
  over the indices of the handler list; matching against a nil \<^verbatim>\<open>keyRegex\<close> panics.
\<close>

type_synonym invocation = "nat \<times> wrp_Message"

function dispatch ::
  "env \<Rightarrow> HandlerRegistry list \<Rightarrow> wrp_Message \<Rightarrow> nat \<Rightarrow> invocation list \<Rightarrow>
     unit outcome \<times> invocation list" where
  "dispatch e hs wrpData i calls =
     (if i < length hs then
        (case keyRegex (hs ! i) of
           None \<Rightarrow> (Panicked ''nil pointer dereference: keyRegex'', calls)
         | Some re \<Rightarrow>
             if regexp_MatchString e re (Destination wrpData) then
               dispatch e hs wrpData (Suc i) (calls @ [(Handler (hs ! i), wrpData)])
             else dispatch e hs wrpData (Suc i) calls)
      else (Returned (), calls))"
  by pat_completeness auto
termination
  by (relation "measure (\<lambda>(e, hs, wrpData, i, calls). length hs - i)") auto

datatype read_status = ReadBlocked | ReadReturned error | ReadPanicked string

function read_loop ::
  "env \<Rightarrow> HandlerRegistry list \<Rightarrow> Conn \<Rightarrow> invocation list \<Rightarrow>
     read_status \<times> Conn \<times> invocation list" where
  "read_loop e hs c calls =
     (case ReadMessage c of
        (None, c') \<Rightarrow> (ReadBlocked, c', calls)
      | (Some (Inl err), c') \<Rightarrow> (ReadReturned err, c', calls)
      | (Some (Inr serverMessage), c') \<Rightarrow>
          (case wrp_Decode e serverMessage of
             Inl err \<Rightarrow> (ReadReturned err, c', calls)
           | Inr wrpData \<Rightarrow>
               (case dispatch e hs wrpData 0 [] of
                  (Panicked p, calls') \<Rightarrow> (ReadPanicked p, c', calls @ calls')
                | (Returned _, calls') \<Rightarrow> read_loop e hs c' (calls @ calls'))))"
  by pat_completeness auto
termination
  by (relation "measure (\<lambda>(e, hs, c, calls). length (incoming c))")
    (auto simp: ReadMessage_def split: list.splits)

text \<open>
  \<^verbatim>\<open>read\<close>: the loop, and the deferred \<^verbatim>\<open>c.connection.Close()\<close> once the loop is left.
\<close>

definition read :: "env \<Rightarrow> client \<Rightarrow> read_status \<times> client \<times> invocation list" where
  "read e c =
     (case read_loop e (handlers c) (connection c) [] of
        (st, conn', calls) \<Rightarrow>
          (st, c\<lparr>connection := (if st = ReadBlocked then conn' else Conn_Close conn')\<rparr>, calls))"

section \<open>The keepalive watchdog and Close\<close>

text \<open>
  The watchdog goroutine \<^verbatim>\<open>checkPing\<close> and the callers of \<^verbatim>\<open>Close\<close> share the
  connection and the unbuffered channel \<^verbatim>\<open>stop\<close>. The state of a running client holds
  both, with the place the watchdog is at: waiting in its \<^verbatim>\<open>select\<close>, returning (the
  loop is left, the deferred function has not run yet), or exited. \<open>pingTimer_fired\<close>
  says that the one-shot \<^verbatim>\<open>pingTimer\<close> has fired and its value has been received: the
  code never resets it. \<open>miss_calls\<close> counts the calls of \<^verbatim>\<open>pmh.handlePingMiss\<close>.
\<close>

datatype wd_pc = InSelect | Returning | Exited

record runtime =
  conn :: Conn
  pc :: wd_pc
  pingTimer_fired :: bool
  stop_closed :: bool
  miss_calls :: nat

definition start :: "Conn \<Rightarrow> runtime" where
  "start c = \<lparr>conn = c, pc = InSelect, pingTimer_fired = False, stop_closed = False,
              miss_calls = 0\<rparr>"

text \<open>The two cases of the \<^verbatim>\<open>select\<close> of \<^verbatim>\<open>checkPing\<close>.\<close>

datatype select_case = recv_stop | recv_timer

text \<open>
  One round of the loop, given the case that became ready. A value on \<^verbatim>\<open>pingTimer.C\<close>
  can be received once only; a later \<open>recv_timer\<close> is a case that is never ready.
\<close>

fun select_body :: "select_case \<Rightarrow> runtime \<Rightarrow> runtime" where
  "select_body recv_stop s =
     s\<lparr>conn := snd (WriteMessage (conn s) CloseMessage []), pc := Returning\<rparr>"
| "select_body recv_timer s =
     (if pingTimer_fired s then s
      else
        (case WriteMessage (conn s) PingMessage [] of
           (Some err, c') \<Rightarrow> s\<lparr>conn := c', pingTimer_fired := True, pc := Returning\<rparr>
         | (None, c') \<Rightarrow> s\<lparr>conn := c', pingTimer_fired := True\<rparr>))"

text \<open>
  The deferred function of \<^verbatim>\<open>checkPing\<close>: \<^verbatim>\<open>pingTimer.Stop()\<close>,
  \<^verbatim>\<open>pmh.conn.Close()\<close>, \<^verbatim>\<open>close(pmh.stop)\<close>.
\<close>

definition deferred :: "runtime \<Rightarrow> runtime" where
  "deferred s = s\<lparr>conn := Conn_Close (conn s), stop_closed := True, pc := Exited\<rparr>"

text \<open>
  \<^verbatim>\<open>checkPing\<close>, run on its own over the cases that become ready, in order. When the
  list is used up the watchdog is waiting in its \<^verbatim>\<open>select\<close>.
\<close>

fun checkPing_loop :: "select_case list \<Rightarrow> runtime \<Rightarrow> runtime" where
  "checkPing_loop [] s = s"
| "checkPing_loop (x # xs) s =
     (let s' = select_body x s
      in if pc s' = InSelect then checkPing_loop xs s' else deferred s')"

definition checkPing :: "Conn \<Rightarrow> select_case list \<Rightarrow> runtime" where
  "checkPing c ready = checkPing_loop ready (start c)"

text \<open>
  \<^verbatim>\<open>stopPingHandler\<close> is the send \<^verbatim>\<open>pmh.stop <- true\<close>. On a closed channel it
  panics. On an open channel it is received when the watchdog waits in its
  \<^verbatim>\<open>select\<close>, which then takes the stop case. When the watchdog has left the loop and
  the channel is still open, nobody receives: the send stays blocked until the deferred
  \<^verbatim>\<open>close(pmh.stop)\<close> has run, and then panics.
\<close>

definition stopPingHandler :: "runtime \<Rightarrow> unit outcome \<times> runtime" where
  "stopPingHandler s =
     (if stop_closed s then (Panicked ''send on closed channel'', s)
      else if pc s = InSelect then (Returned (), select_body recv_stop s)
      else (Panicked ''send on closed channel'', deferred s))"

definition Close :: "runtime \<Rightarrow> error option outcome \<times> runtime" where
  "Close s =
     (case stopPingHandler s of
        (Panicked p, s') \<Rightarrow> (Panicked p, s')
      | (Returned _, s') \<Rightarrow> (Returned None, s'))"

text \<open>
  A schedule of a running client: a caller calls \<^verbatim>\<open>Close\<close>, the ping period elapses,
  or the watchdog gets to run its deferred function. \<open>run\<close> collects how each call of
  \<^verbatim>\<open>Close\<close> ended.
\<close>

datatype sched = CallClose | TimerFires | WatchdogDefers

fun step :: "sched \<Rightarrow> runtime \<Rightarrow> error option outcome list \<times> runtime" where
  "step CallClose s = (case Close s of (r, s') \<Rightarrow> ([r], s'))"
| "step TimerFires s = ([], if pc s = InSelect then select_body recv_timer s else s)"
| "step WatchdogDefers s = ([], if pc s = Returning then deferred s else s)"

fun run :: "sched list \<Rightarrow> runtime \<Rightarrow> error option outcome list \<times> runtime" where
  "run [] s = ([], s)"
| "run (x # xs) s =
     (case step x s of
        (rs, s') \<Rightarrow> (case run xs s' of (rs', s'') \<Rightarrow> (rs @ rs', s'')))"

section \<open>The earlier revision of the watchdog and of the host name\<close>

text \<open>
  The second source file is an earlier revision of the package. Its \<^verbatim>\<open>New\<close> cuts the
  connect URL down to the host: \<^verbatim>\<open>connectionURL[len("ws://"):strings.LastIndex(connectionURL, ":")]\<close>.
  A slice expression with bounds out of order panics.
\<close>

fun LastIndex_from :: "string \<Rightarrow> string \<Rightarrow> int \<Rightarrow> int \<Rightarrow> int" where
  "LastIndex_from [] sep i found = (if sep = [] then i else found)"
| "LastIndex_from (c # cs) sep i found =
     LastIndex_from cs sep (i + 1) (if take (length sep) (c # cs) = sep then i else found)"

definition strings_LastIndex :: "string \<Rightarrow> string \<Rightarrow> int" where
  "strings_LastIndex s sep = LastIndex_from s sep 0 (- 1)"

definition slice :: "string \<Rightarrow> int \<Rightarrow> int \<Rightarrow> string outcome" where
  "slice s lo hi =
     (if 0 \<le> lo \<and> lo \<le> hi \<and> hi \<le> int (length s) then
        Returned (take (nat (hi - lo)) (drop (nat lo) s))
      else Panicked ''slice bounds out of range'')"

definition hostname_part000 :: "string \<Rightarrow> string outcome" where
  "hostname_part000 connectionURL =
     slice connectionURL (int (length ''ws://'')) (strings_LastIndex connectionURL '':'')"

text \<open>
  The earlier \<^verbatim>\<open>checkPing\<close> sends no probe. It waits for the stop signal, for the timer
  and for the notification that a ping of the server has arrived. The timer is armed or
  not (fired, its value received).
\<close>

datatype select_case_part000 = recv_stop0 | recv_timer0 | recv_pinged0

datatype wd_pc_part000 = InSelect0 | BlockedOnTimerC | Panicked0 string

record runtime_part000 =
  pc0 :: wd_pc_part000
  timer_armed :: bool
  stop_closed0 :: bool
  miss_calls0 :: nat

text \<open>
  The stop case ends the loop; the deferred \<^verbatim>\<open>close(pmh.stop)\<close> runs first and the
  deferred \<^verbatim>\<open>inClient.Close()\<close> then sends on the closed channel. The timer case calls
  the miss callback and goes on waiting. The pinged case stops and resets the timer; when
  the timer's value has been received already, \<^verbatim>\<open>inTimer.Stop()\<close> is false and the
  receive from \<^verbatim>\<open>inTimer.C\<close> never returns.
\<close>

fun select_body_part000 ::
  "HandlePingMiss \<Rightarrow> select_case_part000 \<Rightarrow> runtime_part000 \<Rightarrow> runtime_part000" where
  "select_body_part000 f recv_stop0 s =
     s\<lparr>stop_closed0 := True, pc0 := Panicked0 ''send on closed channel''\<rparr>"
| "select_body_part000 f recv_timer0 s =
     (if timer_armed s then
        (case f of
           NilFunc \<Rightarrow> s\<lparr>timer_armed := False, stop_closed0 := True,
                         pc0 := Panicked0 ''nil pointer dereference: handlePingMiss''\<rparr>
         | GoFunc r \<Rightarrow> s\<lparr>timer_armed := False, miss_calls0 := Suc (miss_calls0 s)\<rparr>)
      else s)"
| "select_body_part000 f recv_pinged0 s =
     (if timer_armed s then s\<lparr>timer_armed := True\<rparr> else s\<lparr>pc0 := BlockedOnTimerC\<rparr>)"

fun checkPing_part000 ::
  "HandlePingMiss \<Rightarrow> select_case_part000 list \<Rightarrow> runtime_part000 \<Rightarrow> runtime_part000" where
  "checkPing_part000 f [] s = s"
| "checkPing_part000 f (x # xs) s =
     (let s' = select_body_part000 f x s
      in if pc0 s' = InSelect0 then checkPing_part000 f xs s' else s')"

definition start_part000 :: runtime_part000 where
  "start_part000 = \<lparr>pc0 = InSelect0, timer_armed = True, stop_closed0 = False, miss_calls0 = 0\<rparr>"

section \<open>Notions used to state the properties\<close>

text \<open>
  The request \<^verbatim>\<open>createConnection\<close> sends, the TLS configuration it uses, and the
  condition under which the discovery request is sent and answered by \<open>resp\<close>: the device
  name parses, the key pair (if one is configured) loads, and the request can be built.
\<close>

definition discovery_request :: "clientHeader \<Rightarrow> string \<Rightarrow> Request" where
  "discovery_request hi httpURL =
     \<lparr>Method = ''GET'', URL = httpURL,
      ReqHeader = [(''X-Webpa-Device-Name'', [deviceName hi])]\<rparr>"

definition tls_of :: "string \<Rightarrow> string \<Rightarrow> (string \<times> string) option" where
  "tls_of crtFile keyFile = (if crtFile = [] then None else if keyFile = [] then None
                             else Some (crtFile, keyFile))"

definition discovery_answers ::
  "env \<Rightarrow> clientHeader \<Rightarrow> string \<Rightarrow> string \<Rightarrow> string \<Rightarrow> Response \<Rightarrow> bool" where
  "discovery_answers e hi httpURL crtFile keyFile resp \<longleftrightarrow>
     device_ParseID e (deviceName hi) = None
     \<and> (crtFile = [] \<or> keyFile = [] \<or> tls_LoadX509KeyPair e crtFile keyFile = None)
     \<and> http_NewRequest e ''GET'' httpURL = None
     \<and> client_Do e (discovery_request hi httpURL) = Inr resp"

text \<open>
  The URL that is dialed for a response and its prior response: the response's own
  \<^verbatim>\<open>Location\<close> when it has one, the prior response's otherwise.
\<close>

definition connect_url :: "Response \<Rightarrow> Response \<Rightarrow> string" where
  "connect_url resp prior =
     strings_Replace1
       (if Header_Get (Header resp) ''Location'' \<noteq> [] then Header_Get (Header resp) ''Location''
        else Header_Get (Header prior) ''Location'') ''http'' ''ws'' @ ''/api/v2/device''"

text \<open>A registration after \<^verbatim>\<open>New\<close> has compiled its key.\<close>

definition compiled :: "HandlerRegistry \<Rightarrow> HandlerRegistry" where
  "compiled h = h\<lparr>keyRegex := Some (HandlerKey h)\<rparr>"

definition hostname_of :: "(error + client) outcome \<times> netcall list \<Rightarrow> string option" where
  "hostname_of r = (case fst r of Returned (Inr c) \<Rightarrow> Some (Hostname c) | _ \<Rightarrow> None)"

fun dialed :: "netcall list \<Rightarrow> (string \<times> Header) list" where
  "dialed [] = []"
| "dialed (HttpDo req t # cs) = dialed cs"
| "dialed (WsDial url h t # cs) = (url, h) # dialed cs"

fun requested :: "netcall list \<Rightarrow> Request list" where
  "requested [] = []"
| "requested (HttpDo req t # cs) = req # requested cs"
| "requested (WsDial url h t # cs) = requested cs"

text \<open>The handlers a message with destination \<open>d\<close> is for, in registration order.\<close>

definition matching :: "env \<Rightarrow> HandlerRegistry list \<Rightarrow> string \<Rightarrow> HandlerRegistry list" where
  "matching e hs d = filter (\<lambda>h. regexp_MatchString e (HandlerKey h) d) hs"

section \<open>A concrete environment\<close>

text \<open>
  Stand-ins for the external libraries, to run the model on: a device name is accepted
  when it starts with \<open>mac:\<close>; every certificate loads and every URL parses; the
  expression \<open>(\<close> does not compile; a compiled expression matches when it is \<open>.*\<close> or
  a prefix of the destination; the JSON decoder knows the one document of the spec and
  fails on every other body, leaving the message as it was; a frame decodes to a
  message with the frame as destination.
\<close>

definition dq :: char where
  "dq = CHR 0x22"

definition body_not_found :: string where
  "body_not_found = ''{'' @ [dq] @ ''code'' @ [dq] @ '':404,'' @ [dq] @ ''message'' @ [dq]
     @ '':'' @ [dq] @ ''not found'' @ [dq] @ ''}''"

definition conn0 :: Conn where
  "conn0 = \<lparr>incoming = [], write_results = [], written = [], closed = False, readLimit = 0\<rparr>"

definition env_with :: "Response \<Rightarrow> env" where
  "env_with resp =
     \<lparr>device_ParseID = (\<lambda>s. if take 4 s = ''mac:'' then None
                             else Some (External ''invalid device id'')),
      tls_LoadX509KeyPair = (\<lambda>c k. None),
      http_NewRequest = (\<lambda>m u. None),
      client_Do = (\<lambda>req. Inr resp),
      dialer_Dial = (\<lambda>url h. (Some conn0, Some (Response 101 [] [] None), None)),
      regexp_Compile = (\<lambda>p. if p = ''('' then Some (External ''missing closing )'') else None),
      regexp_MatchString = (\<lambda>re s. re = ''.*'' \<or> take (length re) s = re),
      json_Unmarshal = (\<lambda>body msg. if body = body_not_found
                                     then \<lparr>Code = 404, Message = ''not found''\<rparr> else msg),
      http_StatusText = (\<lambda>c. if c = 404 then ''Not Found''
                              else if c = 500 then ''Internal Server Error'' else []),
      wrp_Decode = (\<lambda>b. if b = [] then Inl (External ''EOF'')
                         else Inr \<lparr>Source = [], Destination = b, TransactionUUID = [],
                                   Payload = []\<rparr>)\<rparr>"

text \<open>
  Discovery responses: the redirect itself, with and without a prior response; the answer
  of the redirect's target after the HTTP layer has followed a redirect (the redirect is
  its prior response); a bare 404 behind an ordinary redirect.
\<close>

definition redirect307 :: "Response option \<Rightarrow> Response" where
  "redirect307 prior = Response 307 [(''Location'', [''http://host:1234/path''])] [] prior"

definition moved302 :: Response where
  "moved302 = Response 302 [(''Location'', [''http://petasos:6400/'' ])] [] None"

definition resp_direct :: Response where
  "resp_direct = redirect307 (Some moved302)"

definition resp_nested :: Response where
  "resp_nested = Response 400 [] [] (Some (redirect307 None))"

definition resp_404 :: Response where
  "resp_404 = Response 404 [] [] (Some moved302)"

definition handler :: "string \<Rightarrow> nat \<Rightarrow> HandlerRegistry" where
  "handler k n = \<lparr>HandlerKey = k, keyRegex = None, Handler = n\<rparr>"

definition factory0 :: ClientFactory where
  "factory0 =
     \<lparr>DeviceName = ''mac:ffffff112233'', FirmwareName = ''TG1682_2.1p7s1_PROD_sey'',
      ModelName = ''TG1682G'', Manufacturer = ''ARRIS Group, Inc.'',
      DestinationURL = ''https://fabric.example.net:8080/api/v2/device'',
      CRT = [], Key = [],
      Handlers = [handler ''/foo'' 0, handler ''/bar'' 1, handler ''.*'' 2],
      FactoryHandlePingMiss = GoFunc None\<rparr>"

text \<open>A factory with a key that does not compile, and one with a malformed device name.\<close>

definition factory_bad_pattern :: ClientFactory where
  "factory_bad_pattern = factory0\<lparr>Handlers := [handler ''/foo'' 0, handler ''('' 1]\<rparr>"

definition factory_bad_name :: ClientFactory where
  "factory_bad_name = factory0\<lparr>DeviceName := ''ffffff112233''\<rparr>"

text \<open>
  An encoder that refuses a message without destination, a message, a client whose next
  write fails, a frame, a connection with that frame to read, and a connection whose next
  write fails.
\<close>

definition encoder0 :: "wrp_Message \<Rightarrow> error + bytes" where
  "encoder0 m = (if Destination m = [] then Inl (External ''no destination'')
                 else Inr (Destination m))"

definition msg0 :: wrp_Message where
  "msg0 = \<lparr>Source = ''mac:ffffff112233/emu'', Destination = ''event:device-status/bla/bla'',
           TransactionUUID = ''emu:1'', Payload = ''the payload''\<rparr>"

definition conn_broken :: Conn where
  "conn_broken = conn0\<lparr>write_results := [Some (External ''broken pipe'')]\<rparr>"

definition client0 :: client where
  "client0 =
     \<lparr>deviceID = ''mac:ffffff112233'', userAgent = [], deviceProtocols = [],
      hostname = ''ws://host:1234/path/api/v2/device'',
      handlers = [compiled (handler ''/foo'' 0), compiled (handler ''/bar'' 1),
                  compiled (handler ''.*'' 2)],
      connection = conn_broken,
      headerInfo = inHeader_of factory0, handlePingMiss = GoFunc None\<rparr>"

definition frame0 :: bytes where
  "frame0 = ''/foo/status''"

definition conn_in :: Conn where
  "conn_in = conn0\<lparr>incoming := [Inr frame0]\<rparr>"

section \<open>Properties of connection establishment\<close>

declare dispatch.simps [simp del] read_loop.simps [simp del]

lemma identity_headers_eq:
  "identity_headers hi =
     [(''X-Webpa-Device-Name'', [deviceName hi]), (''X-Webpa-Firmware-Name'', [firmwareName hi]),
      (''X-Webpa-Model-Name'', [modelName hi]), (''X-Webpa-Manufacturer'', [manufacturer hi])]"
  by (simp add: identity_headers_def)

lemma createConnection_answered:
  assumes "discovery_answers e hi url crt key resp"
  shows "createConnection e hi url crt key =
           (case follow_redirect e (identity_headers hi) (tls_of crt key) resp of
              (r, calls) \<Rightarrow> (Returned r, HttpDo (discovery_request hi url) (tls_of crt key) # calls))"
  using assms
  by (auto simp: createConnection_def discovery_answers_def discovery_request_def tls_of_def
        Let_def split: prod.splits)

lemma createConnection_Do_fails:
  assumes "device_ParseID e (deviceName hi) = None"
    and "crt = [] \<or> key = [] \<or> tls_LoadX509KeyPair e crt key = None"
    and "http_NewRequest e ''GET'' url = None"
    and "client_Do e (discovery_request hi url) = Inl err"
  shows "createConnection e hi url crt key =
           (Returned (None, [], Some err), [HttpDo (discovery_request hi url) (tls_of crt key)])"
  using assms
  by (auto simp: createConnection_def discovery_request_def tls_of_def Let_def)

lemma follow_redirect_no_prior:
  "Request_Response resp = None \<Longrightarrow>
   follow_redirect e hs t resp = ((None, [], Some (ErrorsNew ''Petasos response is nil!'')), [])"
  by (simp add: follow_redirect_def)

lemma follow_redirect_redirect:
  assumes "Request_Response resp = Some prior"
    and "StatusCode resp = 307 \<or> StatusCode prior = 307"
  shows "follow_redirect e hs t resp =
           (case dialer_Dial e (connect_url resp prior) hs of
              (cn, resp', err) \<Rightarrow>
                (case err of
                   Some x \<Rightarrow> ((None, [], Some x), [WsDial (connect_url resp prior) hs t])
                 | None \<Rightarrow>
                     (case resp' of
                        None \<Rightarrow> ((None, [], None), [WsDial (connect_url resp prior) hs t])
                      | Some _ \<Rightarrow>
                          ((cn, connect_url resp prior, None),
                           [WsDial (connect_url resp prior) hs t]))))"
proof (cases "Header_Get (Header resp) ''Location'' = []")
  case True
  then have cu: "connect_url resp prior =
      strings_Replace1 (Header_Get (Header prior) ''Location'') ''http'' ''ws'' @ ''/api/v2/device''"
    by (simp add: connect_url_def)
  show ?thesis
    unfolding cu using assms True
    by (simp add: follow_redirect_def StatusTemporaryRedirect_def Let_def)
next
  case False
  then have cu: "connect_url resp prior =
      strings_Replace1 (Header_Get (Header resp) ''Location'') ''http'' ''ws'' @ ''/api/v2/device''"
    by (simp add: connect_url_def)
  show ?thesis
    unfolding cu using assms False
    by (simp add: follow_redirect_def StatusTemporaryRedirect_def Let_def)
qed

lemma follow_redirect_dials:
  assumes "Request_Response resp = Some prior"
    and "StatusCode resp = 307 \<or> StatusCode prior = 307"
  shows "snd (follow_redirect e hs t resp) = [WsDial (connect_url resp prior) hs t]"
  by (simp add: follow_redirect_redirect [OF assms] split: prod.splits option.splits)

lemma follow_redirect_other:
  assumes "Request_Response resp = Some prior"
    and "StatusCode resp \<noteq> 307" and "StatusCode prior \<noteq> 307"
  shows "follow_redirect e hs t resp =
           ((None, [], Some (createError e resp
               (ErrorsNew ''Received invalid response from petasos!''))), [])"
  using assms by (simp add: follow_redirect_def StatusTemporaryRedirect_def)

lemma follow_redirect_calls:
  "snd (follow_redirect e hs t resp) = []
   \<or> (\<exists>url. snd (follow_redirect e hs t resp) = [WsDial url hs t])"
  by (auto simp: follow_redirect_def Let_def split: option.splits prod.splits)

lemma New_calls:
  "snd (New e f) = snd (createConnection e (inHeader_of f) (DestinationURL f) (CRT f) (Key f))"
  by (simp add: New_def Let_def split: prod.splits outcome.splits option.splits sum.splits)

lemma New_answered:
  assumes "discovery_answers e (inHeader_of f) (DestinationURL f) (CRT f) (Key f) resp"
  shows "New e f =
     (case follow_redirect e (identity_headers (inHeader_of f)) (tls_of (CRT f) (Key f)) resp of
        ((newConnection, connectionURL, err), calls) \<Rightarrow>
          (case err of
             Some x \<Rightarrow> Returned (Inl x)
           | None \<Rightarrow>
               (case newConnection of
                  None \<Rightarrow> Panicked ''nil pointer dereference: newConnection''
                | Some cn \<Rightarrow>
                    (case compile_handlers e (Handlers f) of
                       Inl x \<Rightarrow> Returned (Inl x)
                     | Inr hs \<Rightarrow>
                         Returned (Inr
                           \<lparr>deviceID = DeviceName f,
                            userAgent = ''WebPA-1.6('' @ FirmwareName f @ '';''
                              @ ModelName f @ ''/'' @ Manufacturer f @ '';)'',
                            deviceProtocols = ''TODO-what-to-put-here'',
                            hostname = connectionURL,
                            handlers = hs,
                            connection = SetReadLimit cn maxMessageSize,
                            headerInfo = inHeader_of f,
                            handlePingMiss = FactoryHandlePingMiss f\<rparr>))),
           HttpDo (discovery_request (inHeader_of f) (DestinationURL f))
             (tls_of (CRT f) (Key f)) # calls))"
proof -
  note cc = createConnection_answered [OF assms]
  show ?thesis
    unfolding New_def Let_def cc
    by (simp add: inHeader_of_def split: prod.splits option.splits sum.splits)
qed

lemma env_with_answers:
  "discovery_answers (env_with resp) (inHeader_of factory0) (DestinationURL factory0)
     (CRT factory0) (Key factory0) resp"
  by (simp add: discovery_answers_def env_with_def inHeader_of_def factory0_def)

lemma compile_handlers_Inr:
  "compile_handlers e regs = Inr hs \<Longrightarrow> hs = map compiled regs"
  by (induction regs arbitrary: hs) (auto simp: compiled_def split: option.splits sum.splits)

lemma compile_factory0:
  "compile_handlers (env_with resp) (Handlers factory0)
     = Inr [\<lparr>HandlerKey = ''/foo'', keyRegex = Some ''/foo'', Handler = 0\<rparr>,
            \<lparr>HandlerKey = ''/bar'', keyRegex = Some ''/bar'', Handler = 1\<rparr>,
            \<lparr>HandlerKey = ''.*'', keyRegex = Some ''.*'', Handler = 2\<rparr>]"
  by (simp add: env_with_def factory0_def handler_def)

text \<open>
  The earlier revision cut the connect URL down to the host; \<^verbatim>\<open>kratos.go\<close> keeps the
  statement as a comment only.
\<close>

lemma hostname_part000_example:
  "hostname_part000 ''ws://host:1234/path/api/v2/device'' = Returned ''host''"
  by code_simp

text \<open>
  Claim C1, as amended. Let the discovery request be sent and answered by a response that
  has a prior response, and let the redirect with \<^verbatim>\<open>Location: http://host:1234/path\<close> be
  the response itself (status 307) or its prior response (status 307, the response having
  no \<^verbatim>\<open>Location\<close> of its own). Then the one URL that is dialed is
  \<^verbatim>\<open>ws://host:1234/path/api/v2/device\<close>, and when the dial succeeds and the handler keys
  compile, \<^verbatim>\<open>Hostname()\<close> of the client returns this whole connect URL, not the host
  part of it.
\<close>

theorem C1_connect_url_and_hostname:
  assumes "discovery_answers e (inHeader_of f) (DestinationURL f) (CRT f) (Key f) resp"
    and "Request_Response resp = Some prior"
    and "StatusCode resp = 307 \<and> Header_Get (Header resp) ''Location'' = ''http://host:1234/path''
         \<or> StatusCode prior = 307 \<and> Header_Get (Header resp) ''Location'' = []
            \<and> Header_Get (Header prior) ''Location'' = ''http://host:1234/path''"
  shows "dialed (snd (New e f))
           = [(''ws://host:1234/path/api/v2/device'', identity_headers (inHeader_of f))]
       \<and> ((\<exists>c r. dialer_Dial e ''ws://host:1234/path/api/v2/device''
                     (identity_headers (inHeader_of f)) = (Some c, Some r, None))
            \<and> (\<exists>hs. compile_handlers e (Handlers f) = Inr hs)
          \<longrightarrow> hostname_of (New e f) = Some ''ws://host:1234/path/api/v2/device'')"
proof -
  have redirect: "StatusCode resp = 307 \<or> StatusCode prior = 307"
    using assms(3) by blast
  have url: "connect_url resp prior = ''ws://host:1234/path/api/v2/device''"
    using assms(3) by (auto simp: connect_url_def)
  note fr = follow_redirect_redirect [OF assms(2) redirect, unfolded url]
  note new = New_answered [OF assms(1)]
  have "dialed (snd (New e f))
          = [(''ws://host:1234/path/api/v2/device'', identity_headers (inHeader_of f))]"
    unfolding new fr by (simp split: prod.splits option.splits sum.splits)
  moreover have "hostname_of (New e f) = Some ''ws://host:1234/path/api/v2/device''"
    if "dialer_Dial e ''ws://host:1234/path/api/v2/device''
          (identity_headers (inHeader_of f)) = (Some c, Some r, None)"
      and "compile_handlers e (Handlers f) = Inr hs" for c r hs
    unfolding new fr using that by (simp add: hostname_of_def Hostname_def)
  ultimately show ?thesis by blast
qed

theorem C1_connect_url_and_hostname_witness:
  "dialed (snd (New (env_with resp_nested) factory0))
     = [(''ws://host:1234/path/api/v2/device'', identity_headers (inHeader_of factory0))]
   \<and> hostname_of (New (env_with resp_nested) factory0) = Some ''ws://host:1234/path/api/v2/device''"
proof -
  have h2: "Request_Response resp_nested = Some (redirect307 None)"
    by (simp add: resp_nested_def)
  have h3: "StatusCode resp_nested = 307
              \<and> Header_Get (Header resp_nested) ''Location'' = ''http://host:1234/path''
            \<or> StatusCode (redirect307 None) = 307
              \<and> Header_Get (Header resp_nested) ''Location'' = []
              \<and> Header_Get (Header (redirect307 None)) ''Location'' = ''http://host:1234/path''"
    by (simp add: resp_nested_def redirect307_def Header_Get_def)
  have h4: "\<exists>c r. dialer_Dial (env_with resp_nested) ''ws://host:1234/path/api/v2/device''
                     (identity_headers (inHeader_of factory0)) = (Some c, Some r, None)"
    by (simp add: env_with_def)
  have h5: "\<exists>hs. compile_handlers (env_with resp_nested) (Handlers factory0) = Inr hs"
    by (simp add: compile_factory0)
  from C1_connect_url_and_hostname [OF env_with_answers h2 h3] h4 h5
  show ?thesis by blast
qed

text \<open>
  Claim C1 as stated fails: for the direct redirect of the claim the host name of the
  client is the connect URL, not \<open>host\<close>.
\<close>

theorem C1_hostname_counterexample:
  "StatusCode resp_direct = 307
   \<and> Header_Get (Header resp_direct) ''Location'' = ''http://host:1234/path''
   \<and> hostname_of (New (env_with resp_direct) factory0) = Some ''ws://host:1234/path/api/v2/device''
   \<and> hostname_of (New (env_with resp_direct) factory0) \<noteq> Some ''host''"
  by code_simp

text \<open>
  Claim C2, as amended. When the discovery request is sent and answered: a response with
  no prior response ends the construction with the error \<open>Petasos response is nil!\<close>
  after the one HTTP call, whatever its status; a response with a prior response, one of
  the two having status 307, leads to exactly one dial, of the URL built from the
  response's own \<^verbatim>\<open>Location\<close> when it has one and from the prior response's otherwise.
\<close>

theorem C2_redirect_needs_prior_response:
  assumes "discovery_answers e hi url crt key resp"
  shows "(Request_Response resp = None \<longrightarrow>
            createConnection e hi url crt key =
              (Returned (None, [], Some (ErrorsNew ''Petasos response is nil!'')),
               [HttpDo (discovery_request hi url) (tls_of crt key)]))
       \<and> (\<forall>prior. Request_Response resp = Some prior
             \<and> (StatusCode resp = 307 \<or> StatusCode prior = 307) \<longrightarrow>
            snd (createConnection e hi url crt key) =
              [HttpDo (discovery_request hi url) (tls_of crt key),
               WsDial (connect_url resp prior) (identity_headers hi) (tls_of crt key)])"
proof (intro conjI impI allI)
  assume "Request_Response resp = None"
  then show "createConnection e hi url crt key =
      (Returned (None, [], Some (ErrorsNew ''Petasos response is nil!'')),
       [HttpDo (discovery_request hi url) (tls_of crt key)])"
    by (simp add: createConnection_answered [OF assms] follow_redirect_no_prior)
next
  fix prior
  assume "Request_Response resp = Some prior \<and> (StatusCode resp = 307 \<or> StatusCode prior = 307)"
  then have "snd (follow_redirect e (identity_headers hi) (tls_of crt key) resp)
      = [WsDial (connect_url resp prior) (identity_headers hi) (tls_of crt key)]"
    by (simp add: follow_redirect_dials)
  then show "snd (createConnection e hi url crt key) =
      [HttpDo (discovery_request hi url) (tls_of crt key),
       WsDial (connect_url resp prior) (identity_headers hi) (tls_of crt key)]"
    by (auto simp: createConnection_answered [OF assms] split: prod.splits)
qed

theorem C2_redirect_needs_prior_response_witness:
  "createConnection (env_with (redirect307 None)) (inHeader_of factory0)
      (DestinationURL factory0) (CRT factory0) (Key factory0) =
     (Returned (None, [], Some (ErrorsNew ''Petasos response is nil!'')),
      [HttpDo (discovery_request (inHeader_of factory0) (DestinationURL factory0)) None])
   \<and> snd (createConnection (env_with resp_direct) (inHeader_of factory0)
      (DestinationURL factory0) (CRT factory0) (Key factory0)) =
     [HttpDo (discovery_request (inHeader_of factory0) (DestinationURL factory0)) None,
      WsDial ''ws://host:1234/path/api/v2/device'' (identity_headers (inHeader_of factory0)) None]
   \<and> snd (createConnection (env_with resp_nested) (inHeader_of factory0)
      (DestinationURL factory0) (CRT factory0) (Key factory0)) =
     [HttpDo (discovery_request (inHeader_of factory0) (DestinationURL factory0)) None,
      WsDial ''ws://host:1234/path/api/v2/device'' (identity_headers (inHeader_of factory0)) None]"
proof -
  have t: "tls_of (CRT factory0) (Key factory0) = None"
    by (simp add: tls_of_def factory0_def)
  have a: "Request_Response (redirect307 None) = None"
    by (simp add: redirect307_def)
  have b: "Request_Response resp_direct = Some moved302
             \<and> (StatusCode resp_direct = 307 \<or> StatusCode moved302 = 307)"
    by (simp add: resp_direct_def redirect307_def)
  have c: "Request_Response resp_nested = Some (redirect307 None)
             \<and> (StatusCode resp_nested = 307 \<or> StatusCode (redirect307 None) = 307)"
    by (simp add: resp_nested_def redirect307_def)
  have ub: "connect_url resp_direct moved302 = ''ws://host:1234/path/api/v2/device''"
    by (simp add: connect_url_def resp_direct_def redirect307_def Header_Get_def)
  have uc: "connect_url resp_nested (redirect307 None) = ''ws://host:1234/path/api/v2/device''"
    by (simp add: connect_url_def resp_nested_def redirect307_def Header_Get_def)
  note thm_a = C2_redirect_needs_prior_response [OF env_with_answers [of "redirect307 None"],
      THEN conjunct1, rule_format, OF a]
  note thm_b = C2_redirect_needs_prior_response [OF env_with_answers [of resp_direct],
      THEN conjunct2, rule_format, OF b]
  note thm_c = C2_redirect_needs_prior_response [OF env_with_answers [of resp_nested],
      THEN conjunct2, rule_format, OF c]
  from thm_a thm_b thm_c show ?thesis
    unfolding t ub uc by simp
qed

text \<open>
  Claim C2 as stated fails: a direct 307 response with its \<^verbatim>\<open>Location\<close> and no prior
  response does not reach the dial; the construction returns the error of the guard.
\<close>

theorem C2_direct_redirect_counterexample:
  "StatusCode (redirect307 None) = 307
   \<and> Header_Get (Header (redirect307 None)) ''Location'' = ''http://host:1234/path''
   \<and> Request_Response (redirect307 None) = None
   \<and> fst (New (env_with (redirect307 None)) factory0)
       = Returned (Inl (ErrorsNew ''Petasos response is nil!''))
   \<and> dialed (snd (New (env_with (redirect307 None)) factory0)) = []"
  by code_simp

section \<open>Properties of the error of a response that is no redirect\<close>

text \<open>
  What \<^verbatim>\<open>createError\<close> puts into the message: the decoded message when it is not
  empty, the two fixed strings for the statuses 523 and 524, and otherwise the reason
  phrase of the \<^emph>\<open>decoded\<close> code, which is 0 when the body did not decode.
\<close>

lemma createError_message:
  "createError e resp err =
     KratosError
       ((json_Unmarshal e (Body resp) \<lparr>Code = 0, Message = []\<rparr>)
          \<lparr>Message :=
             (let msg = json_Unmarshal e (Body resp) \<lparr>Code = 0, Message = []\<rparr>
              in if Message msg \<noteq> [] then Message msg
                 else if StatusCode resp = 523 then ''ErrorDeviceBusy''
                 else if StatusCode resp = 524 then
                   ''ErrorTransactionsClosed/ErrorTransactionsAlreadyClosed/ErrorDeviceClosed''
                 else http_StatusText e (Code msg))\<rparr>) err"
  by (simp add: createError_def Let_def StatusDeviceDisconnected_def StatusDeviceTimeout_def)

lemma createError_body_message:
  "createError (env_with r) (Response 404 [] body_not_found (Some moved302)) err
     = KratosError \<lparr>Code = 404, Message = ''not found''\<rparr> err"
  by (simp add: createError_message env_with_def)

text \<open>
  Claim C3, at the input where the code departs from it: a response with status 404 and
  an empty body, behind an ordinary redirect. The message of the error is empty, and the
  construction returns this error, while the reason phrase of the status 404 is
  \<open>Not Found\<close>.
\<close>

theorem C3_createError_status_text_of_body_code:
  "createError (env_with resp_404) resp_404 (ErrorsNew ''Received invalid response from petasos!'')
     = KratosError \<lparr>Code = 0, Message = []\<rparr> (ErrorsNew ''Received invalid response from petasos!'')
   \<and> fst (New (env_with resp_404) factory0)
     = Returned (Inl (KratosError \<lparr>Code = 0, Message = []\<rparr>
         (ErrorsNew ''Received invalid response from petasos!'')))
   \<and> StatusCode resp_404 = 404
   \<and> Body resp_404 = []
   \<and> http_StatusText (env_with resp_404) 404 = ''Not Found''"
  by code_simp

section \<open>Properties of the read loop\<close>

lemma dispatch_compiled:
  "dispatch e (map compiled regs) m i calls =
     (Returned (), calls @ map (\<lambda>h. (Handler h, m)) (matching e (drop i regs) (Destination m)))"
proof (induction "length regs - i" arbitrary: i calls)
  case 0
  then show ?case
    by (subst dispatch.simps) (simp add: matching_def)
next
  case (Suc n)
  then have i: "i < length regs" and n: "n = length regs - Suc i"
    by simp_all
  have d: "drop i regs = regs ! i # drop (Suc i) regs"
    using i by (simp add: Cons_nth_drop_Suc)
  show ?case
    using i Suc.hyps(1) [OF n]
    by (subst dispatch.simps) (simp add: d matching_def compiled_def)
qed

text \<open>
  Claim C4. Let \<open>hs\<close> be the handler list of a constructed client (the registrations
  \<open>regs\<close> with their keys compiled), and let the next frame read from the connection
  decode to the message \<open>m\<close>. Then the inner loop returns after invoking exactly the
  registrations whose key matches the destination of \<open>m\<close>, each with \<open>m\<close>, in
  registration order; the read loop goes on with these invocations appended; and their
  number is the number of matching registrations. Handlers are taken to return.
\<close>

theorem C4_every_matching_handler_in_order:
  assumes "compile_handlers e regs = Inr hs"
    and "ReadMessage c = (Some (Inr frame), c')"
    and "wrp_Decode e frame = Inr m"
  shows "dispatch e hs m 0 [] =
           (Returned (), map (\<lambda>h. (Handler h, m)) (matching e regs (Destination m)))
       \<and> read_loop e hs c calls =
           read_loop e hs c' (calls @ map (\<lambda>h. (Handler h, m)) (matching e regs (Destination m)))
       \<and> length (snd (dispatch e hs m 0 [])) = length (matching e regs (Destination m))"
proof -
  have hs: "hs = map compiled regs"
    using assms(1) by (rule compile_handlers_Inr)
  have d: "dispatch e hs m 0 [] =
      (Returned (), map (\<lambda>h. (Handler h, m)) (matching e regs (Destination m)))"
    unfolding hs by (simp add: dispatch_compiled)
  have "read_loop e hs c calls =
      read_loop e hs c' (calls @ map (\<lambda>h. (Handler h, m)) (matching e regs (Destination m)))"
    by (subst read_loop.simps) (simp add: assms(2,3) d)
  with d show ?thesis by simp
qed

theorem C4_every_matching_handler_in_order_witness:
  "dispatch (env_with resp_nested)
      [\<lparr>HandlerKey = ''/foo'', keyRegex = Some ''/foo'', Handler = 0\<rparr>,
       \<lparr>HandlerKey = ''/bar'', keyRegex = Some ''/bar'', Handler = 1\<rparr>,
       \<lparr>HandlerKey = ''.*'', keyRegex = Some ''.*'', Handler = 2\<rparr>]
      \<lparr>Source = [], Destination = frame0, TransactionUUID = [], Payload = []\<rparr> 0 []
     = (Returned (),
        [(0, \<lparr>Source = [], Destination = frame0, TransactionUUID = [], Payload = []\<rparr>),
         (2, \<lparr>Source = [], Destination = frame0, TransactionUUID = [], Payload = []\<rparr>)])
   \<and> length (matching (env_with resp_nested) (Handlers factory0) frame0) = 2"
proof -
  have r: "ReadMessage conn_in = (Some (Inr frame0), conn0)"
    by (simp add: ReadMessage_def conn_in_def conn0_def)
  have d: "wrp_Decode (env_with resp_nested) frame0
             = Inr \<lparr>Source = [], Destination = frame0, TransactionUUID = [], Payload = []\<rparr>"
    by (simp add: env_with_def frame0_def)
  have m: "matching (env_with resp_nested) (Handlers factory0) frame0
             = [handler ''/foo'' 0, handler ''.*'' 2]"
    by (simp add: matching_def env_with_def factory0_def handler_def frame0_def)
  from C4_every_matching_handler_in_order [OF compile_factory0 r d, of "[]"]
  show ?thesis
    by (simp add: m handler_def)
qed

section \<open>Properties of the watchdog\<close>

lemma select_body_miss_calls: "miss_calls (select_body x s) = miss_calls s"
  by (cases x) (simp_all split: prod.splits option.splits)

lemma checkPing_loop_miss_calls: "miss_calls (checkPing_loop ready s) = miss_calls s"
  by (induction ready arbitrary: s) (simp_all add: Let_def select_body_miss_calls deferred_def)

text \<open>Whatever becomes ready, \<^verbatim>\<open>checkPing\<close> of \<^verbatim>\<open>kratos.go\<close> never calls the miss callback.\<close>

lemma checkPing_never_calls_handlePingMiss: "miss_calls (checkPing c ready) = 0"
  by (simp add: checkPing_def checkPing_loop_miss_calls start_def)

text \<open>
  Claim C5, at the input where the code departs from it: the ping period elapses and the
  timer case is taken. One ping frame is written, the watchdog waits again, and the miss
  callback has not been called; the timer never fires a second time, so there is no second
  probe either. The earlier revision of \<^verbatim>\<open>checkPing\<close> calls the callback once at this
  point and goes on waiting.
\<close>

theorem C5_checkPing_timer_without_miss_callback:
  "miss_calls (checkPing conn0 [recv_timer]) = 0
   \<and> written (conn (checkPing conn0 [recv_timer])) = [(PingMessage, [])]
   \<and> pc (checkPing conn0 [recv_timer]) = InSelect
   \<and> miss_calls (checkPing conn0 [recv_timer, recv_timer, recv_timer]) = 0
   \<and> written (conn (checkPing conn0 [recv_timer, recv_timer, recv_timer])) = [(PingMessage, [])]
   \<and> miss_calls0 (checkPing_part000 (GoFunc None) [recv_timer0] start_part000) = 1
   \<and> pc0 (checkPing_part000 (GoFunc None) [recv_timer0] start_part000) = InSelect0"
  by code_simp

section \<open>Properties of the send path\<close>

text \<open>
  Claim C6. When encoding fails, \<^verbatim>\<open>Send\<close> returns the encoder's error and leaves the
  client, and so the connection, as it was: nothing is written, whatever the next write
  would have answered. When encoding gives a buffer, \<^verbatim>\<open>Send\<close> returns what the write
  of that buffer returns, and the connection has seen exactly one more write: the buffer
  as one binary frame.
\<close>

theorem C6_Send_encodes_then_writes_once:
  "(\<forall>err. wrp_Encode message = Inl err \<longrightarrow> Send wrp_Encode c message = (Some err, c))
   \<and> (\<forall>buffer. wrp_Encode message = Inr buffer \<longrightarrow>
         fst (Send wrp_Encode c message) = fst (WriteMessage (connection c) BinaryMessage buffer)
         \<and> written (connection (snd (Send wrp_Encode c message)))
             = written (connection c) @ [(BinaryMessage, buffer)]
         \<and> write_results (connection (snd (Send wrp_Encode c message)))
             = tl (write_results (connection c)))"
  by (auto simp: Send_def WriteMessage_def split: prod.splits list.splits)

theorem C6_Send_encodes_then_writes_once_witness:
  "Send encoder0 client0 (msg0\<lparr>Destination := []\<rparr>) = (Some (External ''no destination''), client0)
   \<and> fst (Send encoder0 client0 msg0) = Some (External ''broken pipe'')
   \<and> written (connection (snd (Send encoder0 client0 msg0)))
       = [(BinaryMessage, ''event:device-status/bla/bla'')]"
proof -
  have a: "encoder0 (msg0\<lparr>Destination := []\<rparr>) = Inl (External ''no destination'')"
    by (simp add: encoder0_def)
  have b: "encoder0 msg0 = Inr ''event:device-status/bla/bla''"
    by (simp add: encoder0_def msg0_def)
  have w: "fst (WriteMessage (connection client0) BinaryMessage ''event:device-status/bla/bla'')
             = Some (External ''broken pipe'')"
    by (simp add: WriteMessage_def client0_def conn_broken_def conn0_def)
  have w0: "written (connection client0) = []"
    by (simp add: client0_def conn_broken_def conn0_def)
  note t1 = C6_Send_encodes_then_writes_once [of encoder0 "msg0\<lparr>Destination := []\<rparr>" client0,
      THEN conjunct1, rule_format, OF a]
  note t2 = C6_Send_encodes_then_writes_once [of encoder0 msg0 client0,
      THEN conjunct2, rule_format, OF b]
  from t1 t2 show ?thesis
    by (simp add: w w0)
qed

section \<open>Properties of construction\<close>

text \<open>
  Claim C7, at the input where the code departs from it: the second handler key does not
  compile, the discovery is answered by a redirect and the dial succeeds. The
  construction returns the compiler's error, and by then the transport has been dialed:
  the keys are compiled after the connection is established, and nothing closes the
  connection on this path.
\<close>

theorem C7_bad_pattern_after_dial:
  "fst (New (env_with resp_nested) factory_bad_pattern)
     = Returned (Inl (External ''missing closing )''))
   \<and> dialed (snd (New (env_with resp_nested) factory_bad_pattern))
     = [(''ws://host:1234/path/api/v2/device'',
         [(''X-Webpa-Device-Name'', [''mac:ffffff112233'']),
          (''X-Webpa-Firmware-Name'', [''TG1682_2.1p7s1_PROD_sey'']),
          (''X-Webpa-Model-Name'', [''TG1682G'']),
          (''X-Webpa-Manufacturer'', [''ARRIS Group, Inc.''])])]"
  by code_simp

text \<open>
  Claim C8. When the device name does not parse, the construction returns the parser's
  error and has made no network call: neither the HTTP request nor the dial.
\<close>

theorem C8_invalid_device_name_no_network_call:
  "device_ParseID e (DeviceName f) = Some err \<Longrightarrow> New e f = (Returned (Inl err), [])"
  by (simp add: New_def createConnection_def inHeader_of_def)

theorem C8_invalid_device_name_no_network_call_witness:
  "device_ParseID (env_with resp_direct) (DeviceName factory_bad_name)
     = Some (External ''invalid device id'')
   \<and> New (env_with resp_direct) factory_bad_name
     = (Returned (Inl (External ''invalid device id'')), [])"
proof -
  have h: "device_ParseID (env_with resp_direct) (DeviceName factory_bad_name)
             = Some (External ''invalid device id'')"
    by (simp add: env_with_def factory_bad_name_def factory0_def)
  from h C8_invalid_device_name_no_network_call [OF h] show ?thesis by simp
qed

text \<open>
  Claim C9, as amended. When the device name parses, the key pair (if configured) loads
  and the request can be built, the construction sends exactly one HTTP request: a GET to
  the discovery URL whose only header is \<^verbatim>\<open>X-Webpa-Device-Name\<close> with the device name.
  The four identity headers are what every dial of the construction carries.
\<close>

theorem C9_discovery_request_carries_device_name:
  assumes "device_ParseID e (DeviceName f) = None"
    and "CRT f = [] \<or> Key f = [] \<or> tls_LoadX509KeyPair e (CRT f) (Key f) = None"
    and "http_NewRequest e ''GET'' (DestinationURL f) = None"
  shows "requested (snd (New e f))
           = [\<lparr>Method = ''GET'', URL = DestinationURL f,
               ReqHeader = [(''X-Webpa-Device-Name'', [DeviceName f])]\<rparr>]
       \<and> (\<forall>d \<in> set (dialed (snd (New e f))).
             snd d = [(''X-Webpa-Device-Name'', [DeviceName f]),
                      (''X-Webpa-Firmware-Name'', [FirmwareName f]),
                      (''X-Webpa-Model-Name'', [ModelName f]),
                      (''X-Webpa-Manufacturer'', [Manufacturer f])])"
proof (cases "client_Do e (discovery_request (inHeader_of f) (DestinationURL f))")
  case (Inl err)
  have "deviceName (inHeader_of f) = DeviceName f"
    by (simp add: inHeader_of_def)
  with assms have "snd (New e f)
      = [HttpDo (discovery_request (inHeader_of f) (DestinationURL f)) (tls_of (CRT f) (Key f))]"
    unfolding New_calls using Inl by (simp add: createConnection_Do_fails)
  then show ?thesis
    by (simp add: discovery_request_def inHeader_of_def)
next
  case (Inr resp)
  with assms have ans: "discovery_answers e (inHeader_of f) (DestinationURL f) (CRT f) (Key f) resp"
    by (simp add: discovery_answers_def inHeader_of_def)
  have calls: "snd (New e f)
      = HttpDo (discovery_request (inHeader_of f) (DestinationURL f)) (tls_of (CRT f) (Key f))
          # snd (follow_redirect e (identity_headers (inHeader_of f)) (tls_of (CRT f) (Key f)) resp)"
    unfolding New_calls by (simp add: createConnection_answered [OF ans] split: prod.splits)
  from follow_redirect_calls [of e "identity_headers (inHeader_of f)" "tls_of (CRT f) (Key f)" resp]
  show ?thesis
    unfolding calls
    by (auto simp: discovery_request_def inHeader_of_def identity_headers_eq)
qed

theorem C9_discovery_request_carries_device_name_witness:
  "requested (snd (New (env_with resp_nested) factory0))
     = [\<lparr>Method = ''GET'', URL = ''https://fabric.example.net:8080/api/v2/device'',
         ReqHeader = [(''X-Webpa-Device-Name'', [''mac:ffffff112233''])]\<rparr>]
   \<and> map snd (dialed (snd (New (env_with resp_nested) factory0)))
     = [[(''X-Webpa-Device-Name'', [''mac:ffffff112233'']),
         (''X-Webpa-Firmware-Name'', [''TG1682_2.1p7s1_PROD_sey'']),
         (''X-Webpa-Model-Name'', [''TG1682G'']),
         (''X-Webpa-Manufacturer'', [''ARRIS Group, Inc.''])]]"
proof -
  have h1: "device_ParseID (env_with resp_nested) (DeviceName factory0) = None"
    by (simp add: env_with_def factory0_def)
  have h2: "CRT factory0 = [] \<or> Key factory0 = []
            \<or> tls_LoadX509KeyPair (env_with resp_nested) (CRT factory0) (Key factory0) = None"
    by (simp add: factory0_def)
  have h3: "http_NewRequest (env_with resp_nested) ''GET'' (DestinationURL factory0) = None"
    by (simp add: env_with_def)
  have d: "map fst (dialed (snd (New (env_with resp_nested) factory0)))
             = [''ws://host:1234/path/api/v2/device'']"
    by code_simp
  from C9_discovery_request_carries_device_name [OF h1 h2 h3] d
  show ?thesis
    by (cases "dialed (snd (New (env_with resp_nested) factory0))") (auto simp: factory0_def)
qed

text \<open>
  Claim C9 as stated fails: the one request of the construction carries the device name
  only; the firmware, model and manufacturer headers are absent from it although the
  factory names a firmware.
\<close>

theorem C9_identity_headers_counterexample:
  "map ReqHeader (requested (snd (New (env_with resp_nested) factory0)))
     = [[(''X-Webpa-Device-Name'', [''mac:ffffff112233''])]]
   \<and> Header_Get [(''X-Webpa-Device-Name'', [''mac:ffffff112233''])] ''X-Webpa-Firmware-Name'' = []
   \<and> Header_Get [(''X-Webpa-Device-Name'', [''mac:ffffff112233''])] ''X-Webpa-Model-Name'' = []
   \<and> Header_Get [(''X-Webpa-Device-Name'', [''mac:ffffff112233''])] ''X-Webpa-Manufacturer'' = []
   \<and> FirmwareName factory0 = ''TG1682_2.1p7s1_PROD_sey''"
  by code_simp

section \<open>Properties of Close\<close>

lemma Close_returns_iff:
  "fst (Close s) = Returned None \<longleftrightarrow> pc s = InSelect \<and> \<not> stop_closed s"
  by (auto simp: Close_def stopPingHandler_def)

lemma Close_panics:
  "stop_closed s \<or> pc s \<noteq> InSelect \<Longrightarrow> fst (Close s) = Panicked ''send on closed channel''"
  by (auto simp: Close_def stopPingHandler_def)

lemma Close_leaves_select: "stop_closed (snd (Close s)) \<or> pc (snd (Close s)) \<noteq> InSelect"
  by (simp add: Close_def stopPingHandler_def deferred_def)

lemma step_stays_out:
  "stop_closed s \<or> pc s \<noteq> InSelect \<Longrightarrow>
   stop_closed (snd (step x s)) \<or> pc (snd (step x s)) \<noteq> InSelect"
  by (cases x)
    (auto simp: Close_def stopPingHandler_def deferred_def split: prod.splits option.splits)

lemma step_out_panics:
  "stop_closed s \<or> pc s \<noteq> InSelect \<Longrightarrow> r \<in> set (fst (step x s)) \<Longrightarrow>
   r = Panicked ''send on closed channel''"
  by (cases x) (auto simp: Close_def stopPingHandler_def split: prod.splits if_splits)

lemma run_out_panics:
  "stop_closed s \<or> pc s \<noteq> InSelect \<Longrightarrow> r \<in> set (fst (run xs s)) \<Longrightarrow>
   r = Panicked ''send on closed channel''"
proof (induction xs arbitrary: s)
  case Nil
  then show ?case by simp
next
  case (Cons x xs)
  obtain rs s' where st: "step x s = (rs, s')"
    by (cases "step x s")
  obtain rs' s'' where rn: "run xs s' = (rs', s'')"
    by (cases "run xs s'")
  from Cons.prems(1) st have out: "stop_closed s' \<or> pc s' \<noteq> InSelect"
    using step_stays_out [of s x] by simp
  from Cons.prems(2) st rn have "r \<in> set rs \<or> r \<in> set rs'"
    by simp
  then show ?case
  proof
    assume "r \<in> set rs"
    with st Cons.prems(1) show ?thesis
      using step_out_panics [of s r x] by simp
  next
    assume "r \<in> set rs'"
    with rn out show ?thesis
      using Cons.IH [of s'] by simp
  qed
qed

lemma probe_failure_leaves_select:
  assumes "pc s = InSelect" and "\<not> pingTimer_fired s"
    and "fst (WriteMessage (conn s) PingMessage []) = Some err"
  shows "pc (snd (step TimerFires s)) = Returning"
  using assms by (cases "WriteMessage (conn s) PingMessage []") simp

lemma checkPing_loop_exit:
  "pc s = InSelect \<Longrightarrow> pc (checkPing_loop ready s) \<noteq> InSelect \<Longrightarrow>
   pc (checkPing_loop ready s) = Exited \<and> stop_closed (checkPing_loop ready s)"
  by (induction ready arbitrary: s) (auto simp: Let_def deferred_def)

lemma singleton_all_eq: "length xs = 1 \<Longrightarrow> \<forall>r \<in> set xs. r = p \<Longrightarrow> xs = [p]"
  by (cases xs) auto

text \<open>
  Claim C10. On a freshly constructed client \<^verbatim>\<open>Close\<close> returns nil. A \<^verbatim>\<open>Close\<close>
  issued when the watchdog is not waiting in its \<^verbatim>\<open>select\<close> does not return: its send
  panics on the closed channel. After any \<^verbatim>\<open>Close\<close>, and after a probe whose write
  failed, every later \<^verbatim>\<open>Close\<close> ends so, along every schedule. A watchdog that has
  left its loop has exited with the channel \<^verbatim>\<open>stop\<close> closed by itself.
\<close>

theorem C10_Close_returns_once_while_watchdog_waits:
  "fst (Close (start c)) = Returned None
   \<and> (pc s \<noteq> InSelect \<longrightarrow> fst (Close s) = Panicked ''send on closed channel'')
   \<and> (\<forall>r \<in> set (fst (run xs (snd (Close s)))). r = Panicked ''send on closed channel'')
   \<and> (pc s = InSelect \<and> \<not> pingTimer_fired s
        \<and> fst (WriteMessage (conn s) PingMessage []) \<noteq> None \<longrightarrow>
      (\<forall>r \<in> set (fst (run xs (snd (step TimerFires s)))). r = Panicked ''send on closed channel''))
   \<and> (pc (checkPing c ready) \<noteq> InSelect \<longrightarrow>
        pc (checkPing c ready) = Exited \<and> stop_closed (checkPing c ready))"
proof -
  have first: "fst (Close (start c)) = Returned None"
    by (simp add: Close_returns_iff start_def)
  have out: "fst (Close s) = Panicked ''send on closed channel''" if "pc s \<noteq> InSelect"
    using that by (simp add: Close_panics)
  have second: "r = Panicked ''send on closed channel''"
    if "r \<in> set (fst (run xs (snd (Close s))))" for r
    using run_out_panics [OF Close_leaves_select that] .
  have probe: "r = Panicked ''send on closed channel''"
    if a: "pc s = InSelect \<and> \<not> pingTimer_fired s
        \<and> fst (WriteMessage (conn s) PingMessage []) \<noteq> None"
      and r: "r \<in> set (fst (run xs (snd (step TimerFires s))))" for r
  proof -
    from a obtain err where "fst (WriteMessage (conn s) PingMessage []) = Some err"
      by auto
    with a have "pc (snd (step TimerFires s)) = Returning"
      using probe_failure_leaves_select by blast
    then have "stop_closed (snd (step TimerFires s)) \<or> pc (snd (step TimerFires s)) \<noteq> InSelect"
      by simp
    from run_out_panics [OF this r] show ?thesis .
  qed
  have exit: "pc (checkPing c ready) = Exited \<and> stop_closed (checkPing c ready)"
    if "pc (checkPing c ready) \<noteq> InSelect"
    using that checkPing_loop_exit [of "start c" ready] by (simp add: checkPing_def start_def)
  from first out second probe exit show ?thesis
    by blast
qed

theorem C10_Close_returns_once_while_watchdog_waits_witness:
  "fst (Close (start conn0)) = Returned None
   \<and> pc (snd (Close (start conn0))) \<noteq> InSelect
   \<and> fst (Close (snd (Close (start conn0)))) = Panicked ''send on closed channel''
   \<and> fst (run [WatchdogDefers, CallClose] (snd (Close (start conn0))))
       = [Panicked ''send on closed channel'']
   \<and> fst (run [CallClose] (snd (step TimerFires (start conn_broken))))
       = [Panicked ''send on closed channel'']
   \<and> pc (checkPing conn_broken [recv_timer]) = Exited
   \<and> stop_closed (checkPing conn_broken [recv_timer])"
proof -
  have a: "pc (snd (Close (start conn0))) \<noteq> InSelect"
    by (simp add: Close_def stopPingHandler_def start_def)
  have b: "pc (start conn_broken) = InSelect \<and> \<not> pingTimer_fired (start conn_broken)
             \<and> fst (WriteMessage (conn (start conn_broken)) PingMessage []) \<noteq> None"
    by (simp add: start_def conn_broken_def conn0_def WriteMessage_def)
  have c: "pc (checkPing conn_broken [recv_timer]) \<noteq> InSelect"
    by code_simp
  have l1: "length (fst (run [WatchdogDefers, CallClose] (snd (Close (start conn0))))) = 1"
    by code_simp
  have l2: "length (fst (run [CallClose] (snd (step TimerFires (start conn_broken))))) = 1"
    by code_simp
  note t1 = C10_Close_returns_once_while_watchdog_waits
      [where c = conn0 and s = "snd (Close (start conn0))"
         and xs = "[WatchdogDefers, CallClose]" and ready = "[recv_timer]"]
  note t2 = C10_Close_returns_once_while_watchdog_waits
      [where c = conn_broken and s = "start conn_broken" and xs = "[CallClose]"
         and ready = "[recv_timer]"]
  note t3 = C10_Close_returns_once_while_watchdog_waits
      [where c = conn0 and s = "start conn0" and xs = "[WatchdogDefers, CallClose]"
         and ready = "[recv_timer]"]
  have first: "fst (Close (start conn0)) = Returned None"
    using t1 by (rule conjunct1)
  have again: "fst (Close (snd (Close (start conn0)))) = Panicked ''send on closed channel''"
    using t1 [THEN conjunct2, THEN conjunct1] a by (rule mp)
  have ball1: "\<forall>r \<in> set (fst (run [WatchdogDefers, CallClose] (snd (Close (start conn0))))).
      r = Panicked ''send on closed channel''"
    using t3 [THEN conjunct2, THEN conjunct2] by (rule conjunct1)
  have ball2: "\<forall>r \<in> set (fst (run [CallClose] (snd (step TimerFires (start conn_broken))))).
      r = Panicked ''send on closed channel''"
    using t2 [THEN conjunct2, THEN conjunct2, THEN conjunct2, THEN conjunct1] b by (rule mp)
  have exit: "pc (checkPing conn_broken [recv_timer]) = Exited
      \<and> stop_closed (checkPing conn_broken [recv_timer])"
    using t2 [THEN conjunct2, THEN conjunct2, THEN conjunct2, THEN conjunct2] c by (rule mp)
  have e1: "fst (run [WatchdogDefers, CallClose] (snd (Close (start conn0))))
      = [Panicked ''send on closed channel'']"
    using l1 ball1 by (rule singleton_all_eq)
  have e2: "fst (run [CallClose] (snd (step TimerFires (start conn_broken))))
      = [Panicked ''send on closed channel'']"
    using l2 ball2 by (rule singleton_all_eq)
  from first a again e1 e2 exit show ?thesis
    by (intro conjI) (erule conjunct1 conjunct2 | assumption)+
qed

end
